theory Spec2Isabelle
  imports Main "HOL-Library.Char_ord" "HOL-Library.List_Lexorder" "HOL-Library.Sublist"
begin

section \<open>Usage accounting and generation gating of the opener generator (public/app.js)\<close>

text \<open>
  The client script keeps its state in module-level variables, in one item of the
  browser's local storage and in two tables of a remote store. The embedding passes
  that state explicitly: every function of the script that the properties below talk
  about becomes a HOL function from the state to a result and the new state.

  Conventions of the embedding:
  \<^item> JavaScript numbers that hold counts and balances are \<open>int\<close>;
  \<^item> an object field that may be absent (\<open>undefined\<close>) is an \<open>option\<close>, and
    \<open>x || 0\<close> on such a field is \<open>or0\<close>;
  \<^item> a call to the remote store has one of three outcomes, chosen by the environment:
    it returns data, it returns an error object, or it throws;
  \<^item> every call to the remote store is appended to \<open>remote_log\<close>, so that the
    number of calls an operation issues can be stated;
  \<^item> writes to the page (DOM) and to the console are not part of the state.
\<close>

subsection \<open>Constants\<close>

definition FREE_LIMIT_ANONYMOUS :: int where
  "FREE_LIMIT_ANONYMOUS = 5"

definition FREE_LIMIT_AUTHENTICATED :: int where
  "FREE_LIMIT_AUTHENTICATED = 10"

definition COOLDOWN_DAYS :: int where
  "COOLDOWN_DAYS = 2"

definition CREDIT_PACK_SIZE :: int where
  "CREDIT_PACK_SIZE = 25"

subsection \<open>Dates\<close>

text \<open>
  A \<open>Date\<close> is kept in broken-down local form: the calendar year (\<open>getFullYear\<close>), the
  number of days since January 1 of that year, and the milliseconds since local midnight.
  It carries the time zone rule of the browser it lives in: \<open>offset_at d y n m\<close> is the
  number of milliseconds by which local time is ahead of UTC at the local time \<open>m\<close>
  milliseconds into day \<open>n\<close> of year \<open>y\<close> (negative west of Greenwich, changing with daylight
  saving).
\<close>

record js_date =
  year :: int
  yday :: int
  msec :: int
  offset_at :: "int \<Rightarrow> int \<Rightarrow> int \<Rightarrow> int"

definition msPerDay :: int where
  "msPerDay = 1000 * 60 * 60 * 24"

definition is_leap :: "int \<Rightarrow> bool" where
  "is_leap y = (y mod 4 = 0 \<and> (y mod 100 \<noteq> 0 \<or> y mod 400 = 0))"

definition daysInYear :: "int \<Rightarrow> int" where
  "daysInYear y = (if is_leap y then 366 else 365)"

text \<open>The day number of January 1 of a year, counted from January 1, 1970 (DayFromYear of
  the language standard).\<close>

definition dayFromYear :: "int \<Rightarrow> int" where
  "dayFromYear y =
     365 * (y - 1970) + (y - 1969) div 4 - (y - 1901) div 100 + (y - 1601) div 400"

definition utc_offset :: "js_date \<Rightarrow> int" where
  "utc_offset d = offset_at d (year d) (yday d) (msec d)"

text \<open>The time value of a date: milliseconds since the epoch, in UTC. The difference
  \<open>a - b\<close> of two dates is the difference of their time values.\<close>

definition time_value :: "js_date \<Rightarrow> int" where
  "time_value d = (dayFromYear (year d) + yday d) * msPerDay + msec d - utc_offset d"

text \<open>A day index outside the year rolls over into the neighbouring years.\<close>

function roll_days :: "int \<Rightarrow> int \<Rightarrow> int \<times> int" where
  "roll_days y d =
     (if d < 0 then roll_days (y - 1) (d + daysInYear (y - 1))
      else if daysInYear y \<le> d then roll_days (y + 1) (d - daysInYear y)
      else (y, d))"
  by pat_completeness auto
termination
  by (relation "measure (\<lambda>(y, d). if d < 0 then nat (- d) + 366 else nat d)")
     (auto simp: daysInYear_def split: if_splits)

declare roll_days.simps [simp del]

text \<open>\<open>new Date(y, 0, n)\<close> in a browser with the zone rule \<open>z\<close>: local midnight of day \<open>n\<close> of
  January of year \<open>y\<close>, where a day outside the month rolls over and a year from 0 to 99
  is read as 1900 + y.\<close>

definition new_Date :: "(int \<Rightarrow> int \<Rightarrow> int \<Rightarrow> int) \<Rightarrow> int \<Rightarrow> int \<Rightarrow> js_date" where
  "new_Date z y n =
     (case roll_days (if 0 \<le> y \<and> y \<le> 99 then 1900 + y else y) (n - 1) of
        (y', d') \<Rightarrow> \<lparr>year = y', yday = d', msec = 0, offset_at = z\<rparr>)"

text \<open>Month (1 to 12) and day of the month of a day index within a year, by the table of
  the language standard (MonthFromTime, DateFromTime).\<close>

definition month_day :: "bool \<Rightarrow> int \<Rightarrow> int \<times> int" where
  "month_day leap d =
     (let l = (if leap then 1 else 0) in
      if d < 31 then (1, d + 1)
      else if d < 59 + l then (2, d - 30)
      else if d < 90 + l then (3, d - 58 - l)
      else if d < 120 + l then (4, d - 89 - l)
      else if d < 151 + l then (5, d - 119 - l)
      else if d < 181 + l then (6, d - 150 - l)
      else if d < 212 + l then (7, d - 180 - l)
      else if d < 243 + l then (8, d - 211 - l)
      else if d < 273 + l then (9, d - 242 - l)
      else if d < 304 + l then (10, d - 272 - l)
      else if d < 334 + l then (11, d - 303 - l)
      else (12, d - 333 - l))"

definition digit :: "int \<Rightarrow> char" where
  "digit n = ''0123456789'' ! nat (n mod 10)"

definition pad2 :: "int \<Rightarrow> string" where
  "pad2 n = [digit (n div 10), digit n]"

definition pad4 :: "int \<Rightarrow> string" where
  "pad4 n = [digit (n div 1000), digit (n div 100), digit (n div 10), digit n]"

definition pad6 :: "int \<Rightarrow> string" where
  "pad6 n = [digit (n div 100000), digit (n div 10000)] @ pad4 n"

definition year_string :: "int \<Rightarrow> string" where
  "year_string y =
     (if 0 \<le> y \<and> y \<le> 9999 then pad4 y
      else if y < 0 then ''-'' @ pad6 (- y)
      else ''+'' @ pad6 y)"

text \<open>\<open>d.toISOString().split('T')[0]\<close>: the calendar date in UTC. The UTC time of day is
  the local one less the offset; the whole days in it move the date.\<close>

definition iso_date :: "js_date \<Rightarrow> string" where
  "iso_date d =
     (case roll_days (year d) (yday d + (msec d - utc_offset d) div msPerDay) of
        (y, n) \<Rightarrow>
          (case month_day (is_leap y) n of
             (m, dd) \<Rightarrow> year_string y @ ''-'' @ pad2 m @ ''-'' @ pad2 dd))"

subsection \<open>Quota clock\<close>

definition dayOfYear :: "js_date \<Rightarrow> int" where
  "dayOfYear now =
     (time_value now - time_value (new_Date (offset_at now) (year now) 0)) div msPerDay"

definition periodNumber :: "js_date \<Rightarrow> int" where
  "periodNumber now = dayOfYear now div COOLDOWN_DAYS"

definition getCooldownPeriodStart :: "js_date \<Rightarrow> string" where
  "getCooldownPeriodStart now =
     iso_date (new_Date (offset_at now) (year now) (periodNumber now * COOLDOWN_DAYS + 1))"

text \<open>
  The window of an instant in the words of the specification (4.1): the days of the year
  are cut into windows of \<open>COOLDOWN_DAYS\<close> days, anchored to January 1, so January 1 and 2
  are the first window of a year, January 3 and 4 the second. This definition is not
  taken from the script; it is what \<open>getCooldownPeriodStart\<close> is compared with.
\<close>

definition spec_window :: "js_date \<Rightarrow> int \<times> int" where
  "spec_window d = (year d, yday d div COOLDOWN_DAYS)"

subsection \<open>Data model\<close>

type_synonym user_id = string

text \<open>An opener is \<open>{type, emoji, text}\<close>; the analysis is an opaque structured value.\<close>

type_synonym opener = "string \<times> string \<times> string"

type_synonym analysis = string

record history_item =
  item_id :: int
  matchName :: string
  openers :: "opener list"
  mode :: string
  analysis :: "analysis option"
  date :: string

text \<open>The object stored under the key \<open>unhinged_usage\<close>: \<open>{count, period, total, history}\<close>,
  every field possibly absent. The field \<open>total\<close> is \<open>total_n\<close> here.\<close>

record usage_data =
  count :: "int option"
  period :: "string option"
  total_n :: "int option"
  history :: "history_item list option"

text \<open>What local storage holds under the key: nothing, a string that does not parse,
  or a stored object. \<open>getUsageData\<close> reads the first two as the empty object. The script
  only ever stores objects, so a string that parses to something else is left out.\<close>

datatype stored_item = Absent | Unparsable | Item usage_data

text \<open>A row of the remote table \<open>generations\<close> and a row of the remote table \<open>credits\<close>
  (the column \<open>updated_at\<close> is left out).\<close>

record generation_row =
  user_id :: user_id
  match_name :: string
  openers_col :: "opener list"
  mode_col :: string
  analysis_col :: "analysis option"
  created_at :: string

record credits_row =
  balance :: int
  total_purchased :: int

datatype outcome = Returns | ReturnsError | Throws

datatype remote_call =
    SelectBalance user_id
  | UpsertCredits user_id int int
  | UpdateBalance user_id int
  | CountSince user_id string
  | CountAll user_id
  | SelectOne user_id
  | InsertGeneration generation_row

text \<open>The environment of a call: the clock readings (\<open>new Date()\<close>, \<open>Date.now()\<close>,
  \<open>new Date().toISOString()\<close>, the store's clock for the default of \<open>created_at\<close>) and the
  outcome of the n-th call to the remote store.\<close>

record env =
  now :: js_date
  clock_ms :: int
  clock_iso :: string
  server_now :: string
  net :: "nat \<Rightarrow> outcome"

record app_state =
  currentUser :: "user_id option"
  supabaseClient :: bool
  purchasedCredits :: int
  cachedCloudUsage :: "int option"
  cachedCloudUsagePeriod :: "string option"
  localStorage :: stored_item
  credits :: "user_id \<Rightarrow> credits_row option"
  generations :: "generation_row list"
  remote_log :: "(remote_call \<times> outcome) list"

subsection \<open>Remote store\<close>

text \<open>The store is a collaborator of the script. A call that returns takes effect; a call
  that returns an error or throws leaves the tables as they were. An update of a row that
  does not exist changes nothing.\<close>

fun apply_call :: "remote_call \<Rightarrow> app_state \<Rightarrow> app_state" where
  "apply_call (UpsertCredits u b t) s =
     s\<lparr>credits := (credits s)(u \<mapsto> \<lparr>balance = b, total_purchased = t\<rparr>)\<rparr>"
| "apply_call (UpdateBalance u b) s =
     (case credits s u of
        None \<Rightarrow> s
      | Some row \<Rightarrow> s\<lparr>credits := (credits s)(u \<mapsto> row\<lparr>balance := b\<rparr>)\<rparr>)"
| "apply_call (InsertGeneration row) s = s\<lparr>generations := generations s @ [row]\<rparr>"
| "apply_call _ s = s"

definition remote :: "env \<Rightarrow> remote_call \<Rightarrow> app_state \<Rightarrow> outcome \<times> app_state" where
  "remote e c s =
     (let r = net e (length (remote_log s));
          s' = s\<lparr>remote_log := remote_log s @ [(c, r)]\<rparr>
      in (r, if r = Returns then apply_call c s' else s'))"

definition count_since :: "generation_row list \<Rightarrow> user_id \<Rightarrow> string \<Rightarrow> int" where
  "count_since rows u start =
     int (length (filter (\<lambda>r. user_id r = u \<and> start \<le> created_at r) rows))"

definition rows_of :: "generation_row list \<Rightarrow> user_id \<Rightarrow> generation_row list" where
  "rows_of rows u = filter (\<lambda>r. user_id r = u) rows"

subsection \<open>Local usage ledger\<close>

definition or0 :: "int option \<Rightarrow> int" where
  "or0 x = (case x of None \<Rightarrow> 0 | Some n \<Rightarrow> n)"

definition empty_usage :: usage_data where
  "empty_usage = \<lparr>count = None, period = None, total_n = None, history = None\<rparr>"

definition getUsageData :: "app_state \<Rightarrow> usage_data" where
  "getUsageData s = (case localStorage s of Item d \<Rightarrow> d | _ \<Rightarrow> empty_usage)"

definition saveUsageData :: "usage_data \<Rightarrow> app_state \<Rightarrow> app_state" where
  "saveUsageData d s = s\<lparr>localStorage := Item d\<rparr>"

subsection \<open>Usage reconciler\<close>

text \<open>The last lines of \<open>getFreeUsageCount\<close>: the count kept in local storage, read as 0
  when it was stored for another period.\<close>

definition local_usage_count :: "env \<Rightarrow> app_state \<Rightarrow> int" where
  "local_usage_count e s =
     (let data = getUsageData s;
          currentPeriod = getCooldownPeriodStart (now e)
      in if period data \<noteq> Some currentPeriod then 0 else or0 (count data))"

definition cache_hit :: "string \<Rightarrow> app_state \<Rightarrow> int option" where
  "cache_hit periodStart s =
     (if cachedCloudUsagePeriod s = Some periodStart then cachedCloudUsage s else None)"

definition getFreeUsageCount :: "env \<Rightarrow> app_state \<Rightarrow> int \<times> app_state" where
  "getFreeUsageCount e s =
     (case currentUser s of
        None \<Rightarrow> (local_usage_count e s, s)
      | Some uid \<Rightarrow>
          if \<not> supabaseClient s then (local_usage_count e s, s)
          else
            let periodStart = getCooldownPeriodStart (now e) in
            (case cache_hit periodStart s of
               Some c \<Rightarrow> (c, s)
             | None \<Rightarrow>
                 let startTime = periodStart @ ''T00:00:00.000Z'';
                     n = count_since (generations s) uid startTime
                 in (case remote e (CountSince uid startTime) s of
                       (Throws, s1) \<Rightarrow> (local_usage_count e s1, s1)
                     | (r, s1) \<Rightarrow>
                         let c = (if r = Returns then n else 0)
                         in (c, s1\<lparr>cachedCloudUsage := Some c,
                                   cachedCloudUsagePeriod := Some periodStart\<rparr>))))"

definition getFreeLimit :: "app_state \<Rightarrow> int" where
  "getFreeLimit s =
     (if currentUser s \<noteq> None then FREE_LIMIT_AUTHENTICATED else FREE_LIMIT_ANONYMOUS)"

definition getRemainingFreeGenerations :: "env \<Rightarrow> app_state \<Rightarrow> int \<times> app_state" where
  "getRemainingFreeGenerations e s =
     (case getFreeUsageCount e s of
        (used, s1) \<Rightarrow> (max 0 (getFreeLimit s1 - used), s1))"

definition getRemainingGenerations :: "env \<Rightarrow> app_state \<Rightarrow> int \<times> app_state" where
  "getRemainingGenerations e s =
     (case getRemainingFreeGenerations e s of
        (freeRemaining, s1) \<Rightarrow> (freeRemaining + purchasedCredits s1, s1))"

definition canGenerate :: "env \<Rightarrow> app_state \<Rightarrow> bool \<times> app_state" where
  "canGenerate e s =
     (case getRemainingFreeGenerations e s of
        (freeRemaining, s1) \<Rightarrow> (freeRemaining > 0 \<or> purchasedCredits s1 > 0, s1))"

text \<open>The two functions that refresh the page read the remaining quota again (the
  elements they write to are taken to exist); \<open>updateStats\<close> also counts all rows of a
  signed-in user. Only their effect on the state is kept.\<close>

definition updateStats :: "env \<Rightarrow> app_state \<Rightarrow> app_state" where
  "updateStats e s =
     (let s1 = snd (getRemainingFreeGenerations e s) in
      case currentUser s1 of
        None \<Rightarrow> s1
      | Some uid \<Rightarrow> if supabaseClient s1 then snd (remote e (CountAll uid) s1) else s1)"

definition updateGenerateUsage :: "env \<Rightarrow> app_state \<Rightarrow> app_state" where
  "updateGenerateUsage e s =
     (let s1 = snd (getRemainingFreeGenerations e s) in
      snd (getRemainingFreeGenerations e s1))"

definition incrementUsage :: "env \<Rightarrow> app_state \<Rightarrow> app_state" where
  "incrementUsage e s =
     (let s1 = (case cachedCloudUsage s of
                  None \<Rightarrow> s
                | Some c \<Rightarrow> s\<lparr>cachedCloudUsage := Some (c + 1)\<rparr>);
          data = getUsageData s1;
          currentPeriod = getCooldownPeriodStart (now e);
          data1 = (if period data \<noteq> Some currentPeriod
                   then data\<lparr>count := Some 0, period := Some currentPeriod\<rparr>
                   else data);
          data2 = data1\<lparr>count := Some (or0 (count data1) + 1)\<rparr>;
          data3 = data2\<lparr>total_n := Some (or0 (total_n data2) + 1)\<rparr>;
          s2 = saveUsageData data3 s1;
          s3 = updateStats e s2
      in updateGenerateUsage e s3)"

subsection \<open>Credit ledger\<close>

definition loadCredits :: "env \<Rightarrow> app_state \<Rightarrow> int \<times> app_state" where
  "loadCredits e s =
     (case currentUser s of
        None \<Rightarrow> (0, s\<lparr>purchasedCredits := 0\<rparr>)
      | Some uid \<Rightarrow>
          if \<not> supabaseClient s then (0, s\<lparr>purchasedCredits := 0\<rparr>)
          else
            let found = credits s uid in
            (case remote e (SelectBalance uid) s of
               (Returns, s1) \<Rightarrow>
                 (case found of
                    Some row \<Rightarrow>
                      if balance row \<noteq> 0
                      then (balance row, s1\<lparr>purchasedCredits := balance row\<rparr>)
                      else (0, s1\<lparr>purchasedCredits := 0\<rparr>)
                  | None \<Rightarrow> (0, s1\<lparr>purchasedCredits := 0\<rparr>))
             | (_, s1) \<Rightarrow> (0, s1\<lparr>purchasedCredits := 0\<rparr>)))"

definition addCredits :: "env \<Rightarrow> int \<Rightarrow> app_state \<Rightarrow> bool \<times> app_state" where
  "addCredits e amount s =
     (case currentUser s of
        None \<Rightarrow> (False, s)
      | Some uid \<Rightarrow>
          if \<not> supabaseClient s then (False, s)
          else
            (case remote e (UpsertCredits uid (purchasedCredits s + amount)
                                              (purchasedCredits s + amount)) s of
               (Returns, s1) \<Rightarrow>
                 (True, updateStats e (s1\<lparr>purchasedCredits := purchasedCredits s1 + amount\<rparr>))
             | (_, s1) \<Rightarrow> (False, s1)))"

definition useCredit :: "env \<Rightarrow> app_state \<Rightarrow> bool \<times> app_state" where
  "useCredit e s =
     (case currentUser s of
        None \<Rightarrow> (False, s)
      | Some uid \<Rightarrow>
          if \<not> supabaseClient s \<or> purchasedCredits s \<le> 0 then (False, s)
          else
            (case remote e (UpdateBalance uid (purchasedCredits s - 1)) s of
               (Returns, s1) \<Rightarrow> (True, s1\<lparr>purchasedCredits := purchasedCredits s1 - 1\<rparr>)
             | (_, s1) \<Rightarrow> (False, s1)))"

subsection \<open>Generation gate\<close>


subsection \<open>History\<close>

text \<open>The entry \<open>saveToHistory\<close> builds: its id is \<open>Date.now()\<close>, its date the current time
  as an ISO string.\<close>

definition new_item ::
    "env \<Rightarrow> string \<Rightarrow> opener list \<Rightarrow> string \<Rightarrow> analysis option \<Rightarrow> history_item" where
  "new_item e mName ops md an =
     \<lparr>item_id = clock_ms e, matchName = mName, openers = ops, mode = md,
      analysis = an, date = clock_iso e\<rparr>"

definition saveToHistory ::
    "env \<Rightarrow> string \<Rightarrow> opener list \<Rightarrow> string \<Rightarrow> analysis option \<Rightarrow> app_state \<Rightarrow> app_state" where
  "saveToHistory e mName ops md an s =
     (let data = getUsageData s;
          hist = (case history data of None \<Rightarrow> [] | Some h \<Rightarrow> h);
          newItem = new_item e mName ops md an;
          s1 = saveUsageData (data\<lparr>history := Some (take 50 (newItem # hist))\<rparr>) s
      in case currentUser s1 of
           None \<Rightarrow> s1
         | Some uid \<Rightarrow>
             if supabaseClient s1 then
               snd (remote e (InsertGeneration
                      \<lparr>user_id = uid, match_name = mName, openers_col = ops, mode_col = md,
                       analysis_col = an, created_at = server_now e\<rparr>) s1)
             else s1)"

text \<open>The row \<open>migrateLocalHistoryToCloud\<close> inserts for a local entry: the analysis is not
  sent, the creation time is the entry's own date.\<close>

definition migration_row :: "user_id \<Rightarrow> history_item \<Rightarrow> generation_row" where
  "migration_row uid item =
     \<lparr>user_id = uid, match_name = matchName item, openers_col = openers item,
      mode_col = mode item, analysis_col = None, created_at = date item\<rparr>"

text \<open>The loop of the migration: one insert per entry, a failed insert is skipped.\<close>

fun migrate_items :: "env \<Rightarrow> user_id \<Rightarrow> history_item list \<Rightarrow> app_state \<Rightarrow> app_state" where
  "migrate_items e uid [] s = s"
| "migrate_items e uid (item # items) s =
     migrate_items e uid items (snd (remote e (InsertGeneration (migration_row uid item)) s))"

datatype completion = Resolved | Rejected

definition migrateLocalHistoryToCloud :: "env \<Rightarrow> app_state \<Rightarrow> completion \<times> app_state" where
  "migrateLocalHistoryToCloud e s =
     (case currentUser s of
        None \<Rightarrow> (Resolved, s)
      | Some uid \<Rightarrow>
          if \<not> supabaseClient s then (Resolved, s)
          else
            let data = getUsageData s in
            (case history data of
               None \<Rightarrow> (Resolved, s)
             | Some hist \<Rightarrow>
                 if length hist = 0 then (Resolved, s)
                 else
                   let found = take 1 (rows_of (generations s) uid) in
                   (case remote e (SelectOne uid) s of
                      (Throws, s1) \<Rightarrow> (Rejected, s1)
                    | (r, s1) \<Rightarrow>
                        if r = Returns \<and> length found > 0 then (Resolved, s1)
                        else (Resolved, migrate_items e uid (take 20 hist) s1))))"

subsection \<open>Sequences of operations and observations\<close>

text \<open>The history list as the script reads it: an absent field is the empty list.\<close>

definition history_of :: "app_state \<Rightarrow> history_item list" where
  "history_of s = (case history (getUsageData s) of None \<Rightarrow> [] | Some h \<Rightarrow> h)"

text \<open>A generation to be saved: the environment of the call and the arguments of
  \<open>saveToHistory\<close>.\<close>

type_synonym generation = "env \<times> string \<times> opener list \<times> string \<times> analysis option"

fun item_of :: "generation \<Rightarrow> history_item" where
  "item_of (e, mName, ops, md, an) = new_item e mName ops md an"

fun save_all :: "generation list \<Rightarrow> app_state \<Rightarrow> app_state" where
  "save_all [] s = s"
| "save_all ((e, mName, ops, md, an) # gs) s = save_all gs (saveToHistory e mName ops md an s)"

text \<open>Operations of the credit ledger, each with the environment it runs in.\<close>

datatype ledger_op = Add int | Spend | Load

fun ledger_step :: "env \<times> ledger_op \<Rightarrow> app_state \<Rightarrow> app_state" where
  "ledger_step (e, Add amount) s = snd (addCredits e amount s)"
| "ledger_step (e, Spend) s = snd (useCredit e s)"
| "ledger_step (e, Load) s = snd (loadCredits e s)"

fun run_ledger :: "(env \<times> ledger_op) list \<Rightarrow> app_state \<Rightarrow> app_state" where
  "run_ledger [] s = s"
| "run_ledger (x # xs) s = run_ledger xs (ledger_step x s)"

fun nonneg_amount :: "env \<times> ledger_op \<Rightarrow> bool" where
  "nonneg_amount (e, Add amount) = (0 \<le> amount)"
| "nonneg_amount _ = True"

text \<open>No balance is negative, neither the one in memory nor a persisted one.\<close>

definition balances_nonneg :: "app_state \<Rightarrow> bool" where
  "balances_nonneg s =
     (0 \<le> purchasedCredits s \<and> (\<forall>u row. credits s u = Some row \<longrightarrow> 0 \<le> balance row))"

text \<open>Reads and increments of the free count, each with the environment it runs in.\<close>

datatype usage_op = ReadFree | Increment

fun usage_step :: "env \<times> usage_op \<Rightarrow> app_state \<Rightarrow> app_state" where
  "usage_step (e, ReadFree) s = snd (getFreeUsageCount e s)"
| "usage_step (e, Increment) s = incrementUsage e s"

fun run_usage :: "(env \<times> usage_op) list \<Rightarrow> app_state \<Rightarrow> app_state" where
  "run_usage [] s = s"
| "run_usage (x # xs) s = run_usage xs (usage_step x s)"

fun in_period :: "string \<Rightarrow> env \<times> usage_op \<Rightarrow> bool" where
  "in_period k (e, uop) = (getCooldownPeriodStart (now e) = k)"

fun increments :: "(env \<times> usage_op) list \<Rightarrow> int" where
  "increments [] = 0"
| "increments ((e, Increment) # xs) = 1 + increments xs"
| "increments ((e, ReadFree) # xs) = increments xs"

text \<open>The calls of one kind that were issued to the remote store so far.\<close>

fun is_free_count_query :: "remote_call \<times> outcome \<Rightarrow> bool" where
  "is_free_count_query (CountSince u t, r) = True"
| "is_free_count_query _ = False"

definition free_count_queries :: "app_state \<Rightarrow> nat" where
  "free_count_queries s = length (filter is_free_count_query (remote_log s))"

fun is_insert :: "remote_call \<times> outcome \<Rightarrow> bool" where
  "is_insert (InsertGeneration row, r) = True"
| "is_insert _ = False"

definition insert_calls :: "app_state \<Rightarrow> nat" where
  "insert_calls s = length (filter is_insert (remote_log s))"

text \<open>The entries of a batch whose insert returns, when the first insert is the n-th call
  to the remote store.\<close>

fun accepted :: "env \<Rightarrow> nat \<Rightarrow> 'a list \<Rightarrow> 'a list" where
  "accepted e n [] = []"
| "accepted e n (x # xs) = (if net e n = Returns then [x] else []) @ accepted e (Suc n) xs"

text \<open>A signed-in session whose cache holds a count for the period \<open>k\<close>.\<close>

definition cached_for :: "string \<Rightarrow> app_state \<Rightarrow> bool" where
  "cached_for k s =
     (currentUser s \<noteq> None \<and> supabaseClient s \<and>
      cachedCloudUsagePeriod s = Some k \<and> cachedCloudUsage s \<noteq> None)"

text \<open>Every call to the remote store returns.\<close>

definition reliable :: "env \<Rightarrow> bool" where
  "reliable e = (\<forall>n. net e n = Returns)"



subsection \<open>Example environments and states\<close>

text \<open>Three zone rules: UTC, Tokyo (nine hours ahead, no daylight saving) and New York
  in 2025 (five hours behind, four from March 10 to November 1; the two days of the
  change are left at standard time).

  Environments in UTC on February 10, 2025 (day index 40), whose period key is
  \<open>2025-02-10\<close>: one in which every remote call returns, one in which every call returns
  an error object, one in which every call throws, and one in which only the first call
  returns an error. The states are a fresh anonymous session, the same session signed in
  as user \<open>u1\<close>, a signed-in session with the free quota used up and three credits, a
  session whose user is gone while three credits are still in memory, and two signed-in
  sessions with a local history. The dates are noon of January 1, 2 and 3, 2025 and of
  December 31, 2024 in UTC, noon of February 10, 2025 in Tokyo, and half past midnight
  of July 1, 2025 in New York.\<close>

definition utc :: "int \<Rightarrow> int \<Rightarrow> int \<Rightarrow> int" where
  "utc y n m = 0"

definition tokyo :: "int \<Rightarrow> int \<Rightarrow> int \<Rightarrow> int" where
  "tokyo y n m = 9 * 3600000"

definition new_york :: "int \<Rightarrow> int \<Rightarrow> int \<Rightarrow> int" where
  "new_york y n m = (if y = 2025 \<and> 68 \<le> n \<and> n < 305 then - 4 * 3600000 else - 5 * 3600000)"

definition online :: env where
  "online = \<lparr>now = \<lparr>year = 2025, yday = 40, msec = 0, offset_at = utc\<rparr>,
             clock_ms = 1739145600000,
             clock_iso = ''2025-02-10T00:00:00.000Z'',
             server_now = ''2025-02-10T00:00:00.000Z'', net = (\<lambda>n. Returns)\<rparr>"


definition throwing :: env where
  "throwing = online\<lparr>net := (\<lambda>n. Throws)\<rparr>"

definition fresh_state :: app_state where
  "fresh_state = \<lparr>currentUser = None, supabaseClient = True, purchasedCredits = 0,
                  cachedCloudUsage = None, cachedCloudUsagePeriod = None,
                  localStorage = Absent, credits = Map.empty, generations = [],
                  remote_log = []\<rparr>"

definition signed_in :: app_state where
  "signed_in = fresh_state\<lparr>currentUser := Some ''u1''\<rparr>"



definition select_fails :: env where
  "select_fails = online\<lparr>net := (\<lambda>n. if n = 0 then ReturnsError else Returns)\<rparr>"

definition one_entry :: history_item where
  "one_entry = \<lparr>item_id = 1739000000000, matchName = ''Ann'', openers = [], mode = ''flirty'',
                analysis = None, date = ''2025-02-08T07:33:20.000Z''\<rparr>"

definition returning_user :: app_state where
  "returning_user =
     signed_in\<lparr>localStorage := Item (empty_usage\<lparr>history := Some [one_entry]\<rparr>),
               generations := [migration_row ''u1'' one_entry]\<rparr>"

definition long_history :: app_state where
  "long_history =
     signed_in\<lparr>localStorage := Item (empty_usage\<lparr>history := Some (replicate 25 one_entry)\<rparr>)\<rparr>"

definition january_1 :: js_date where
  "january_1 = \<lparr>year = 2025, yday = 0, msec = 43200000, offset_at = utc\<rparr>"

definition january_2 :: js_date where
  "january_2 = \<lparr>year = 2025, yday = 1, msec = 43200000, offset_at = utc\<rparr>"

definition january_3 :: js_date where
  "january_3 = \<lparr>year = 2025, yday = 2, msec = 43200000, offset_at = utc\<rparr>"

definition leap_eve :: js_date where
  "leap_eve = \<lparr>year = 2024, yday = 365, msec = 43200000, offset_at = utc\<rparr>"

definition tokyo_noon :: js_date where
  "tokyo_noon = \<lparr>year = 2025, yday = 40, msec = 43200000, offset_at = tokyo\<rparr>"

definition new_york_night :: js_date where
  "new_york_night = \<lparr>year = 2025, yday = 181, msec = 1800000, offset_at = new_york\<rparr>"

section \<open>Properties\<close>

subsection \<open>Period keys\<close>

lemmas clock_defs = getCooldownPeriodStart_def periodNumber_def dayOfYear_def time_value_def
  utc_offset_def dayFromYear_def msPerDay_def COOLDOWN_DAYS_def new_Date_def roll_days.simps
  daysInYear_def is_leap_def iso_date_def month_day_def year_string_def pad2_def pad4_def
  digit_def

text \<open>The zone enters twice. East of Greenwich local midnight is still the day before in
  UTC, so the key is one day earlier than the local date it stands for. Under daylight
  saving the time since the start of the year is an hour short, so the day of the year
  turns over at one o'clock.\<close>

lemma tokyo_key: "getCooldownPeriodStart tokyo_noon = ''2025-02-09''"
  by (simp add: tokyo_noon_def tokyo_def clock_defs)

lemma new_york_key: "getCooldownPeriodStart new_york_night = ''2025-06-30''"
  by (simp add: new_york_night_def new_york_def clock_defs)

text \<open>
  C5. The script counts the day of the year from 1 (its base is December 31 of the year
  before) and then takes day \<open>2 * (dayOfYear div 2) + 1\<close> of the year as the start of the
  period. So January 1 and January 2, two days of one window, have different keys: the
  key of January 2 is January 3, a day that has not begun. January 3, in the next
  window, has the key of January 2, and December 31 of a leap year has the key of the
  following January 1.
\<close>

theorem period_key_off_by_one:
  "spec_window january_1 = spec_window january_2 \<and>
   getCooldownPeriodStart january_1 = ''2025-01-01'' \<and>
   getCooldownPeriodStart january_2 = ''2025-01-03'' \<and>
   spec_window january_2 \<noteq> spec_window january_3 \<and>
   getCooldownPeriodStart january_3 = ''2025-01-03'' \<and>
   spec_window leap_eve \<noteq> spec_window january_1 \<and>
   getCooldownPeriodStart leap_eve = ''2025-01-01''"
  by (simp add: january_1_def january_2_def january_3_def leap_eve_def utc_def spec_window_def
      clock_defs)

subsection \<open>What the operations leave alone\<close>

lemma remote_frame:
  "localStorage (snd (remote e c s)) = localStorage s"
  "currentUser (snd (remote e c s)) = currentUser s"
  "supabaseClient (snd (remote e c s)) = supabaseClient s"
  "purchasedCredits (snd (remote e c s)) = purchasedCredits s"
  "cachedCloudUsage (snd (remote e c s)) = cachedCloudUsage s"
  "cachedCloudUsagePeriod (snd (remote e c s)) = cachedCloudUsagePeriod s"
  by (cases c; simp add: remote_def Let_def split: option.splits)+

lemma remote_tables_CountAll:
  "credits (snd (remote e (CountAll u) s)) = credits s"
  "generations (snd (remote e (CountAll u) s)) = generations s"
  by (simp_all add: remote_def Let_def)

lemma getFreeUsageCount_frame:
  "localStorage (snd (getFreeUsageCount e s)) = localStorage s"
  "currentUser (snd (getFreeUsageCount e s)) = currentUser s"
  "supabaseClient (snd (getFreeUsageCount e s)) = supabaseClient s"
  "purchasedCredits (snd (getFreeUsageCount e s)) = purchasedCredits s"
  "credits (snd (getFreeUsageCount e s)) = credits s"
  "generations (snd (getFreeUsageCount e s)) = generations s"
  by (auto simp: getFreeUsageCount_def Let_def remote_def
      split: option.splits prod.splits outcome.splits)

lemma getRemainingFreeGenerations_snd:
  "snd (getRemainingFreeGenerations e s) = snd (getFreeUsageCount e s)"
  by (simp add: getRemainingFreeGenerations_def split_beta)

lemma getRemainingFreeGenerations_fst:
  "fst (getRemainingFreeGenerations e s) = max 0 (getFreeLimit s - fst (getFreeUsageCount e s))"
  by (simp add: getRemainingFreeGenerations_def split_beta getFreeLimit_def
      getFreeUsageCount_frame)

lemma canGenerate_snd: "snd (canGenerate e s) = snd (getFreeUsageCount e s)"
  by (simp add: canGenerate_def split_beta getRemainingFreeGenerations_snd)

lemma updateStats_frame:
  "localStorage (updateStats e s) = localStorage s"
  "currentUser (updateStats e s) = currentUser s"
  "supabaseClient (updateStats e s) = supabaseClient s"
  "purchasedCredits (updateStats e s) = purchasedCredits s"
  "credits (updateStats e s) = credits s"
  "generations (updateStats e s) = generations s"
  by (simp_all add: updateStats_def Let_def getRemainingFreeGenerations_snd
      getFreeUsageCount_frame remote_frame remote_tables_CountAll split: option.splits)


lemma online_key: "getCooldownPeriodStart (now online) = ''2025-02-10''"
  by (simp add: online_def utc_def clock_defs)

subsection \<open>Remaining free generations\<close>

text \<open>
  C3. The remaining free generations are \<open>max(0, limit - used)\<close>, where the limit is 10 for
  a signed-in user and 5 otherwise and \<open>used\<close> is what \<open>getFreeUsageCount\<close> returns; the
  result is never negative. For an anonymous session \<open>used\<close> is the local count, for a
  signed-in session with a cached count for the current period it is the cached count.
\<close>

theorem remaining_free_formula:
  "fst (getRemainingFreeGenerations e s) =
     max 0 (getFreeLimit s - fst (getFreeUsageCount e s)) \<and>
   getFreeLimit s = (if currentUser s = None then 5 else 10) \<and>
   0 \<le> fst (getRemainingFreeGenerations e s) \<and>
   fst (getRemainingFreeGenerations e (s\<lparr>currentUser := None\<rparr>)) =
     max 0 (5 - local_usage_count e s) \<and>
   fst (getRemainingFreeGenerations e
          (s\<lparr>currentUser := Some u, supabaseClient := True, cachedCloudUsage := Some c,
             cachedCloudUsagePeriod := Some (getCooldownPeriodStart (now e))\<rparr>)) =
     max 0 (10 - c)"
  by (simp add: getRemainingFreeGenerations_fst getFreeLimit_def FREE_LIMIT_ANONYMOUS_def
      FREE_LIMIT_AUTHENTICATED_def getFreeUsageCount_def cache_hit_def local_usage_count_def
      getUsageData_def)

subsection \<open>Recording a generation in the local ledger\<close>



subsection \<open>Queries do not write the local ledger\<close>

text \<open>
  C10. \<open>getFreeUsageCount\<close>, \<open>getRemainingFreeGenerations\<close> and \<open>canGenerate\<close> leave the item
  in local storage as it is. In an anonymous session whose stored period differs from
  the current period key, \<open>getFreeUsageCount\<close> returns 0 and changes nothing at all: the
  stale count, period, total and history stay stored.
\<close>

theorem queries_keep_local_record:
  "localStorage (snd (getFreeUsageCount e s)) = localStorage s \<and>
   localStorage (snd (getRemainingFreeGenerations e s)) = localStorage s \<and>
   localStorage (snd (canGenerate e s)) = localStorage s \<and>
   (currentUser s = None \<and> period (getUsageData s) \<noteq> Some (getCooldownPeriodStart (now e))
      \<longrightarrow> fst (getFreeUsageCount e s) = 0 \<and> snd (getFreeUsageCount e s) = s)"
  by (simp add: getFreeUsageCount_frame getRemainingFreeGenerations_snd canGenerate_snd)
     (simp add: getFreeUsageCount_def local_usage_count_def Let_def)

theorem queries_keep_local_record_witness:
  "currentUser (fresh_state\<lparr>localStorage := Item \<lparr>count = Some 5, period = Some ''2025-02-08'',
                                 total_n = Some 7, history = None\<rparr>\<rparr>) = None \<and>
   period (getUsageData (fresh_state\<lparr>localStorage := Item \<lparr>count = Some 5,
             period = Some ''2025-02-08'', total_n = Some 7, history = None\<rparr>\<rparr>))
     \<noteq> Some (getCooldownPeriodStart (now online)) \<and>
   getFreeUsageCount online (fresh_state\<lparr>localStorage := Item \<lparr>count = Some 5,
             period = Some ''2025-02-08'', total_n = Some 7, history = None\<rparr>\<rparr>) =
     (0, fresh_state\<lparr>localStorage := Item \<lparr>count = Some 5, period = Some ''2025-02-08'',
                                 total_n = Some 7, history = None\<rparr>\<rparr>)"
  using queries_keep_local_record [of online
      "fresh_state\<lparr>localStorage := Item \<lparr>count = Some 5, period = Some ''2025-02-08'',
                                 total_n = Some 7, history = None\<rparr>\<rparr>"]
  by (simp add: fresh_state_def getUsageData_def online_key prod_eq_iff)

subsection \<open>Bounded history\<close>

lemma saveToHistory_history:
  "history_of (saveToHistory e mName ops md an s) =
     take 50 (new_item e mName ops md an # history_of s)"
  by (simp add: saveToHistory_def Let_def history_of_def getUsageData_def saveUsageData_def
      remote_frame split: option.splits)

lemma save_all_history:
  "gs \<noteq> [] \<Longrightarrow> history_of (save_all gs s) = take 50 (rev (map item_of gs) @ history_of s)"
proof (induction gs arbitrary: s)
  case Nil
  then show ?case by simp
next
  case (Cons g gs)
  obtain e mName ops md an where g: "g = (e, mName, ops, md, an)"
    by (cases g) auto
  show ?case
  proof (cases "gs = []")
    case True
    then show ?thesis by (simp add: g saveToHistory_history)
  next
    case False
    have "history_of (save_all (g # gs) s) =
          take 50 (rev (map item_of gs) @ take 50 (item_of g # history_of s))"
      using Cons.IH [OF False] by (simp add: g saveToHistory_history)
    also have "\<dots> = take 50 (rev (map item_of gs) @ item_of g # history_of s)"
      by (simp add: take_Cons' min_def)
    finally show ?thesis by simp
  qed
qed

text \<open>
  C7. \<open>saveToHistory\<close> stores the new entry in front of the old history, cut to 50 entries:
  the stored history has at most 50 entries and every old entry that survives has moved
  back by one place. After a non-empty sequence of calls the stored history is the new
  entries, most recent first, followed by the old ones, cut to 50; after 60 calls it has
  exactly 50 entries.
\<close>

theorem saveToHistory_bounded:
  "history_of (saveToHistory e mName ops md an s) =
     take 50 (new_item e mName ops md an # history_of s) \<and>
   length (history_of (saveToHistory e mName ops md an s)) \<le> 50 \<and>
   (\<forall>i. i < length (history_of s) \<and> i + 1 < 50 \<longrightarrow>
        history_of (saveToHistory e mName ops md an s) ! (i + 1) = history_of s ! i) \<and>
   (gs \<noteq> [] \<longrightarrow>
      history_of (save_all gs s) = take 50 (rev (map item_of gs) @ history_of s)) \<and>
   (length gs = 60 \<longrightarrow> length (history_of (save_all gs s)) = 50)"
proof -
  have "length (history_of (save_all gs s)) = 50" if l: "length gs = 60"
  proof -
    from l have "gs \<noteq> []" by auto
    then show ?thesis using l by (simp add: save_all_history)
  qed
  then show ?thesis
    by (simp add: saveToHistory_history save_all_history)
qed

theorem saveToHistory_bounded_witness:
  "(0::nat) < length (history_of (saveToHistory online ''Ann'' [] ''flirty'' None fresh_state)) \<and>
   (0::nat) + 1 < 50 \<and>
   history_of (saveToHistory online ''Bea'' [] ''poetic'' None
      (saveToHistory online ''Ann'' [] ''flirty'' None fresh_state)) ! (0 + 1) =
     history_of (saveToHistory online ''Ann'' [] ''flirty'' None fresh_state) ! 0 \<and>
   replicate 60 (online, ''Cy'', [], ''chaotic'', None) \<noteq> [] \<and>
   length (replicate 60 (online, ''Cy'', [], ''chaotic'', None)) = 60 \<and>
   length (history_of (save_all (replicate 60 (online, ''Cy'', [], ''chaotic'', None))
      (saveToHistory online ''Ann'' [] ''flirty'' None fresh_state))) = 50"
  using saveToHistory_bounded [of online "''Bea''" "[]" "''poetic''" None
      "saveToHistory online ''Ann'' [] ''flirty'' None fresh_state"
      "replicate 60 (online, ''Cy'', [], ''chaotic'', None)"]
  by (simp add: saveToHistory_history)

subsection \<open>Credit ledger\<close>

lemma useCredit_refused:
  "currentUser s = None \<or> purchasedCredits s \<le> 0 \<Longrightarrow> useCredit e s = (False, s)"
  by (auto simp: useCredit_def split: option.splits)

lemma useCredit_success:
  assumes "fst (useCredit e s)"
  shows "purchasedCredits (snd (useCredit e s)) = purchasedCredits s - 1"
    and "\<exists>uid. currentUser s = Some uid \<and> supabaseClient s \<and>
           credits (snd (useCredit e s)) =
             (case credits s uid of
                None \<Rightarrow> credits s
              | Some row \<Rightarrow> (credits s)(uid \<mapsto> row\<lparr>balance := purchasedCredits s - 1\<rparr>))"
    and "0 < purchasedCredits s"
  using assms
  by (auto simp: useCredit_def remote_def Let_def
      split: option.splits if_splits outcome.splits)

lemma useCredit_nonneg: "balances_nonneg s \<Longrightarrow> balances_nonneg (snd (useCredit e s))"
  by (auto simp: balances_nonneg_def useCredit_def remote_def Let_def
      split: option.splits if_splits outcome.splits)

lemma addCredits_nonneg:
  "balances_nonneg s \<Longrightarrow> 0 \<le> amount \<Longrightarrow> balances_nonneg (snd (addCredits e amount s))"
  by (auto simp: balances_nonneg_def addCredits_def remote_def Let_def updateStats_frame
      split: option.splits if_splits outcome.splits)

lemma loadCredits_nonneg: "balances_nonneg s \<Longrightarrow> balances_nonneg (snd (loadCredits e s))"
  by (auto simp: balances_nonneg_def loadCredits_def remote_def Let_def
      split: option.splits if_splits outcome.splits)

lemma ledger_step_nonneg:
  assumes "balances_nonneg s" and "nonneg_amount x"
  shows "balances_nonneg (ledger_step x s)"
proof -
  obtain e lop where x: "x = (e, lop)"
    by (cases x) auto
  show ?thesis
    using assms
    by (cases lop) (simp_all add: x useCredit_nonneg addCredits_nonneg loadCredits_nonneg)
qed

lemma run_ledger_nonneg:
  "balances_nonneg s \<Longrightarrow> list_all nonneg_amount xs \<Longrightarrow> balances_nonneg (run_ledger xs s)"
  by (induction xs arbitrary: s) (simp_all add: ledger_step_nonneg)

text \<open>
  C9. A call of \<open>useCredit\<close> that succeeds lowers the balance in memory by exactly 1 and
  writes that lowered balance to the user's row; with no user or with a balance of 0 or
  less it returns false and changes nothing. \<open>addCredits\<close> without a user returns false
  and changes nothing. Hence from a state without a negative balance, no sequence of
  loads, spends and adds of non-negative amounts reaches a negative balance, in memory
  or persisted.
\<close>

theorem credit_balance_never_negative:
  "(fst (useCredit e s) \<longrightarrow>
      0 < purchasedCredits s \<and>
      purchasedCredits (snd (useCredit e s)) = purchasedCredits s - 1 \<and>
      (\<exists>uid. currentUser s = Some uid \<and> supabaseClient s \<and>
         credits (snd (useCredit e s)) =
           (case credits s uid of
              None \<Rightarrow> credits s
            | Some row \<Rightarrow> (credits s)(uid \<mapsto> row\<lparr>balance := purchasedCredits s - 1\<rparr>)))) \<and>
   (currentUser s = None \<or> purchasedCredits s \<le> 0 \<longrightarrow> useCredit e s = (False, s)) \<and>
   (currentUser s = None \<longrightarrow> addCredits e amount s = (False, s)) \<and>
   (balances_nonneg s \<and> list_all nonneg_amount xs \<longrightarrow> balances_nonneg (run_ledger xs s))"
  using useCredit_success [of e s] useCredit_refused [of s e] run_ledger_nonneg [of s xs]
  by (simp add: addCredits_def)

lemma signed_in_three:
  "useCredit online (signed_in\<lparr>purchasedCredits := 3,
       credits := [''u1'' \<mapsto> \<lparr>balance = 3, total_purchased = 25\<rparr>]\<rparr>) =
     (True, signed_in\<lparr>purchasedCredits := 2,
       credits := [''u1'' \<mapsto> \<lparr>balance = 2, total_purchased = 25\<rparr>],
       remote_log := [(UpdateBalance ''u1'' 2, Returns)]\<rparr>)"
  by (simp add: useCredit_def signed_in_def fresh_state_def remote_def online_def)

theorem credit_balance_never_negative_witness:
  "fst (useCredit online (signed_in\<lparr>purchasedCredits := 3,
       credits := [''u1'' \<mapsto> \<lparr>balance = 3, total_purchased = 25\<rparr>]\<rparr>)) \<and>
   purchasedCredits (snd (useCredit online (signed_in\<lparr>purchasedCredits := 3,
       credits := [''u1'' \<mapsto> \<lparr>balance = 3, total_purchased = 25\<rparr>]\<rparr>))) = 2 \<and>
   currentUser fresh_state = None \<and>
   useCredit online fresh_state = (False, fresh_state) \<and>
   addCredits online 25 fresh_state = (False, fresh_state) \<and>
   balances_nonneg signed_in \<and>
   list_all nonneg_amount [(online, Load), (online, Add 25), (online, Spend)] \<and>
   balances_nonneg (run_ledger [(online, Load), (online, Add 25), (online, Spend)] signed_in)"
  using credit_balance_never_negative [of online
      "signed_in\<lparr>purchasedCredits := 3,
         credits := [''u1'' \<mapsto> \<lparr>balance = 3, total_purchased = 25\<rparr>]\<rparr>" 25 "[]"]
    credit_balance_never_negative [of online fresh_state 25 "[]"]
    credit_balance_never_negative [of online signed_in 25
      "[(online, Load), (online, Add 25), (online, Spend)]"]
  by (simp add: signed_in_three)
     (simp add: balances_nonneg_def signed_in_def fresh_state_def)

text \<open>
  C1. \<open>addCredits\<close> writes the new balance into both columns of the user's row, so the
  column \<open>total_purchased\<close> is the balance after the purchase, not the sum of the
  purchases. A user who buys a pack of 25, spends one credit and buys a second pack has
  \<open>total_purchased = 49\<close> where two packs are 50; a user whose row holds a balance of 24
  and a total of 50 has a total of 49 after the next pack.
\<close>

theorem addCredits_total_purchased_is_balance:
  "credits (run_ledger [(online, Add 25), (online, Spend), (online, Add 25)] signed_in) ''u1'' =
     Some \<lparr>balance = 49, total_purchased = 49\<rparr> \<and>
   addCredits online 25 (signed_in\<lparr>purchasedCredits := 24,
       credits := [''u1'' \<mapsto> \<lparr>balance = 24, total_purchased = 50\<rparr>]\<rparr>) =
     (True, updateStats online (signed_in\<lparr>purchasedCredits := 49,
       credits := [''u1'' \<mapsto> \<lparr>balance = 49, total_purchased = 49\<rparr>],
       remote_log := [(UpsertCredits ''u1'' 49 49, Returns)]\<rparr>))"
  by (simp add: signed_in_def fresh_state_def addCredits_def useCredit_def remote_def Let_def
      updateStats_frame online_def)

subsection \<open>Cached remote count\<close>

lemma free_count_queries_remote:
  "free_count_queries (snd (remote e c s)) =
     free_count_queries s + (if is_free_count_query (c, Returns) then 1 else 0)"
  by (cases c) (simp_all add: free_count_queries_def remote_def Let_def split: option.splits)

lemma getFreeUsageCount_cached:
  assumes "cached_for k s" and "getCooldownPeriodStart (now e) = k"
    and "cachedCloudUsage s = Some c"
  shows "getFreeUsageCount e s = (c, s)"
  using assms by (auto simp: cached_for_def getFreeUsageCount_def cache_hit_def)

lemma getRemainingFreeGenerations_cached:
  assumes "cached_for k s" and "getCooldownPeriodStart (now e) = k"
  shows "snd (getRemainingFreeGenerations e s) = s"
proof -
  from assms(1) obtain c where "cachedCloudUsage s = Some c"
    by (auto simp: cached_for_def)
  with assms show ?thesis
    by (simp add: getRemainingFreeGenerations_snd getFreeUsageCount_cached)
qed

lemma updateStats_cached:
  assumes "cached_for k s" and "getCooldownPeriodStart (now e) = k"
  shows "cached_for k (updateStats e s)"
    and "cachedCloudUsage (updateStats e s) = cachedCloudUsage s"
    and "free_count_queries (updateStats e s) = free_count_queries s"
  using assms getRemainingFreeGenerations_cached [OF assms]
  by (auto simp: updateStats_def Let_def cached_for_def remote_frame free_count_queries_remote)

lemma updateGenerateUsage_cached:
  assumes "cached_for k s" and "getCooldownPeriodStart (now e) = k"
  shows "updateGenerateUsage e s = s"
  using getRemainingFreeGenerations_cached [OF assms]
  by (simp add: updateGenerateUsage_def Let_def)

lemma incrementUsage_cached:
  assumes "cached_for k s" and "getCooldownPeriodStart (now e) = k"
    and "cachedCloudUsage s = Some c"
  shows "cached_for k (incrementUsage e s)"
    and "cachedCloudUsage (incrementUsage e s) = Some (c + 1)"
    and "free_count_queries (incrementUsage e s) = free_count_queries s"
proof -
  define d where "d = (let data = getUsageData (s\<lparr>cachedCloudUsage := Some (c + 1)\<rparr>);
          currentPeriod = getCooldownPeriodStart (now e);
          data1 = (if period data \<noteq> Some currentPeriod
                   then data\<lparr>count := Some 0, period := Some currentPeriod\<rparr>
                   else data);
          data2 = data1\<lparr>count := Some (or0 (count data1) + 1)\<rparr>
      in data2\<lparr>total_n := Some (or0 (total_n data2) + 1)\<rparr>)"
  define s2 where "s2 = saveUsageData d (s\<lparr>cachedCloudUsage := Some (c + 1)\<rparr>)"
  have c2: "cached_for k s2" and v2: "cachedCloudUsage s2 = Some (c + 1)"
    and q2: "free_count_queries s2 = free_count_queries s"
    using assms(1) by (simp_all add: s2_def saveUsageData_def cached_for_def free_count_queries_def)
  have c3: "cached_for k (updateStats e s2)"
    by (rule updateStats_cached(1) [OF c2 assms(2)])
  have inc: "incrementUsage e s = updateGenerateUsage e (updateStats e s2)"
    using assms(3) by (simp add: incrementUsage_def Let_def s2_def d_def)
  then have eq: "incrementUsage e s = updateStats e s2"
    by (simp add: updateGenerateUsage_cached [OF c3 assms(2)])
  show "cached_for k (incrementUsage e s)" using c3 eq by simp
  show "cachedCloudUsage (incrementUsage e s) = Some (c + 1)"
    using updateStats_cached(2) [OF c2 assms(2)] v2 eq by simp
  show "free_count_queries (incrementUsage e s) = free_count_queries s"
    using updateStats_cached(3) [OF c2 assms(2)] q2 eq by simp
qed

lemma run_usage_cached:
  assumes "cached_for k s" and "list_all (in_period k) xs" and "cachedCloudUsage s = Some c"
  shows "cached_for k (run_usage xs s) \<and>
         cachedCloudUsage (run_usage xs s) = Some (c + increments xs) \<and>
         free_count_queries (run_usage xs s) = free_count_queries s"
  using assms
proof (induction xs arbitrary: s c)
  case Nil
  then show ?case by simp
next
  case (Cons x xs)
  obtain e uop where x: "x = (e, uop)"
    by (cases x) auto
  from Cons.prems(2) have k: "getCooldownPeriodStart (now e) = k" and rest: "list_all (in_period k) xs"
    by (simp_all add: x)
  show ?case
  proof (cases uop)
    case ReadFree
    have "usage_step x s = s"
      using getFreeUsageCount_cached [OF Cons.prems(1) k Cons.prems(3)] by (simp add: x ReadFree)
    then show ?thesis
      using Cons.IH [OF Cons.prems(1) rest Cons.prems(3)] by (simp add: x ReadFree)
  next
    case Increment
    note i = incrementUsage_cached [OF Cons.prems(1) k Cons.prems(3)]
    have "cached_for k (usage_step x s)" "cachedCloudUsage (usage_step x s) = Some (c + 1)"
      using i by (simp_all add: x Increment)
    from Cons.IH [OF this(1) rest this(2)] i(3) show ?thesis
      by (simp add: x Increment add.assoc)
  qed
qed

lemma getFreeUsageCount_fills_cache:
  assumes "currentUser s = Some u" and "supabaseClient s"
    and "net e (length (remote_log s)) \<noteq> Throws"
  shows "cached_for (getCooldownPeriodStart (now e)) (snd (getFreeUsageCount e s))"
    and "cachedCloudUsage (snd (getFreeUsageCount e s)) = Some (fst (getFreeUsageCount e s))"
    and "free_count_queries (snd (getFreeUsageCount e s)) \<le> free_count_queries s + 1"
  using assms
  by (auto simp: getFreeUsageCount_def cached_for_def cache_hit_def Let_def remote_def
      free_count_queries_def split: option.splits outcome.splits if_splits)

text \<open>
  C8. Once the cache holds a count for the current period key of a signed-in session,
  \<open>getFreeUsageCount\<close> returns the cached count and changes nothing, and any sequence of
  reads and increments within that period issues no count query for the period: the
  cached count grows by one per increment. A read that finds no cached count for the
  period issues one query, and unless that query throws the cache holds a count for the
  period afterwards.
\<close>

theorem cached_count_is_reused:
  "(cached_for k s \<and> getCooldownPeriodStart (now e) = k \<and> cachedCloudUsage s = Some c
      \<longrightarrow> getFreeUsageCount e s = (c, s)) \<and>
   (cached_for k s \<and> list_all (in_period k) xs \<and> cachedCloudUsage s = Some c
      \<longrightarrow> cached_for k (run_usage xs s) \<and>
          cachedCloudUsage (run_usage xs s) = Some (c + increments xs) \<and>
          free_count_queries (run_usage xs s) = free_count_queries s) \<and>
   (currentUser s = Some u \<and> supabaseClient s \<and> net e (length (remote_log s)) \<noteq> Throws
      \<longrightarrow> cached_for (getCooldownPeriodStart (now e)) (snd (getFreeUsageCount e s)) \<and>
          cachedCloudUsage (snd (getFreeUsageCount e s)) = Some (fst (getFreeUsageCount e s)) \<and>
          free_count_queries (snd (getFreeUsageCount e s)) \<le> free_count_queries s + 1)"
  using getFreeUsageCount_cached [of k s e c] run_usage_cached [of k s xs c]
    getFreeUsageCount_fills_cache [of s u e]
  by blast


theorem cached_count_is_reused_witness:
  "cached_for ''2025-02-10''
     (signed_in\<lparr>cachedCloudUsage := Some 3, cachedCloudUsagePeriod := Some ''2025-02-10''\<rparr>) \<and>
   getCooldownPeriodStart (now online) = ''2025-02-10'' \<and>
   list_all (in_period ''2025-02-10'')
     [(online, ReadFree), (online, Increment), (online, ReadFree)] \<and>
   getFreeUsageCount online
     (signed_in\<lparr>cachedCloudUsage := Some 3, cachedCloudUsagePeriod := Some ''2025-02-10''\<rparr>) =
     (3, signed_in\<lparr>cachedCloudUsage := Some 3, cachedCloudUsagePeriod := Some ''2025-02-10''\<rparr>) \<and>
   cachedCloudUsage (run_usage [(online, ReadFree), (online, Increment), (online, ReadFree)]
     (signed_in\<lparr>cachedCloudUsage := Some 3, cachedCloudUsagePeriod := Some ''2025-02-10''\<rparr>)) =
     Some 4 \<and>
   free_count_queries (run_usage [(online, ReadFree), (online, Increment), (online, ReadFree)]
     (signed_in\<lparr>cachedCloudUsage := Some 3, cachedCloudUsagePeriod := Some ''2025-02-10''\<rparr>)) =
     0 \<and>
   currentUser signed_in = Some ''u1'' \<and> supabaseClient signed_in \<and>
   net online (length (remote_log signed_in)) \<noteq> Throws \<and>
   cached_for ''2025-02-10'' (snd (getFreeUsageCount online signed_in)) \<and>
   free_count_queries (snd (getFreeUsageCount online signed_in)) \<le> 1"
proof -
  let ?s = "signed_in\<lparr>cachedCloudUsage := Some 3, cachedCloudUsagePeriod := Some ''2025-02-10''\<rparr>"
  let ?xs = "[(online, ReadFree), (online, Increment), (online, ReadFree)]"
  have h1: "cached_for ''2025-02-10'' ?s"
    by (simp add: cached_for_def signed_in_def fresh_state_def)
  have h2: "list_all (in_period ''2025-02-10'') ?xs"
    by (simp add: online_key)
  have h3: "cachedCloudUsage ?s = Some 3"
    by simp
  have h4: "currentUser signed_in = Some ''u1''" "supabaseClient signed_in"
    "net online (length (remote_log signed_in)) \<noteq> Throws"
    by (simp_all add: signed_in_def fresh_state_def online_def)
  have q: "free_count_queries ?s = 0" "free_count_queries signed_in = 0"
    by (simp_all add: free_count_queries_def signed_in_def fresh_state_def)
  have i: "3 + increments ?xs = 4"
    by simp
  note t = cached_count_is_reused [of "''2025-02-10''" ?s online 3 ?xs "''u1''"]
  note t' = cached_count_is_reused [of "''2025-02-10''" signed_in online 3 "[]" "''u1''"]
  from t h1 h3 online_key have a: "getFreeUsageCount online ?s = (3, ?s)"
    by blast
  from t h1 h2 h3 have "cachedCloudUsage (run_usage ?xs ?s) = Some (3 + increments ?xs) \<and>
      free_count_queries (run_usage ?xs ?s) = free_count_queries ?s"
    by blast
  then have b: "cachedCloudUsage (run_usage ?xs ?s) = Some 4"
      "free_count_queries (run_usage ?xs ?s) = 0"
    unfolding i q by blast+
  from t' h4 have "cached_for (getCooldownPeriodStart (now online))
        (snd (getFreeUsageCount online signed_in)) \<and>
      free_count_queries (snd (getFreeUsageCount online signed_in)) \<le>
        free_count_queries signed_in + 1"
    by blast
  then have c: "cached_for ''2025-02-10'' (snd (getFreeUsageCount online signed_in))"
      "free_count_queries (snd (getFreeUsageCount online signed_in)) \<le> 1"
    unfolding online_key q by simp_all
  from h1 online_key h2 a b h4 c show ?thesis
    by blast
qed

theorem uncached_failure_counterexample:
  "list_all (in_period ''2025-02-10'') [(throwing, ReadFree), (throwing, ReadFree)] \<and>
   currentUser signed_in = Some ''u1'' \<and>
   free_count_queries (run_usage [(throwing, ReadFree), (throwing, ReadFree)] signed_in) = 2"
  using online_key
  by (simp add: throwing_def)
     (simp add: getFreeUsageCount_def cache_hit_def remote_def Let_def free_count_queries_def
      signed_in_def fresh_state_def online_def)

subsection \<open>Consuming a generation\<close>






























subsection \<open>Migration of the local history\<close>

lemma accepted_subseq: "subseq (accepted e n xs) xs"
  by (induction xs arbitrary: n) (auto intro: subseq_Cons')

lemma accepted_reliable: "reliable e \<Longrightarrow> accepted e n xs = xs"
  by (induction xs arbitrary: n) (simp_all add: reliable_def)

lemma insert_calls_remote:
  "insert_calls (snd (remote e c s)) = insert_calls s + (if is_insert (c, Returns) then 1 else 0)"
  by (cases c) (simp_all add: insert_calls_def remote_def Let_def split: option.splits)

lemma migrate_items_effect:
  "localStorage (migrate_items e uid items s) = localStorage s \<and>
   generations (migrate_items e uid items s) =
     generations s @ map (migration_row uid) (accepted e (length (remote_log s)) items) \<and>
   insert_calls (migrate_items e uid items s) = insert_calls s + length items \<and>
   length (remote_log (migrate_items e uid items s)) = length (remote_log s) + length items"
proof (induction items arbitrary: s)
  case Nil
  then show ?case by simp
next
  case (Cons item items)
  define s1 where "s1 = snd (remote e (InsertGeneration (migration_row uid item)) s)"
  have l: "length (remote_log s1) = Suc (length (remote_log s))"
    by (simp add: s1_def remote_def Let_def)
  have g: "generations s1 =
      generations s @ (if net e (length (remote_log s)) = Returns
                       then [migration_row uid item] else [])"
    by (simp add: s1_def remote_def Let_def)
  have f: "localStorage s1 = localStorage s" "insert_calls s1 = insert_calls s + 1"
    by (simp_all add: s1_def remote_frame insert_calls_remote)
  from Cons.IH [of s1] show ?case
    by (simp add: l g f flip: s1_def)
qed


lemma migrate_idle:
  assumes "currentUser s = None \<or> \<not> supabaseClient s \<or> history_of s = []"
  shows "migrateLocalHistoryToCloud e s = (Resolved, s)"
  using assms
  by (auto simp: migrateLocalHistoryToCloud_def history_of_def Let_def split: option.splits)

lemma migrate_checked:
  assumes "currentUser s = Some uid" and "supabaseClient s" and "history_of s \<noteq> []"
  shows "migrateLocalHistoryToCloud e s =
     (let r = net e (length (remote_log s));
          s1 = s\<lparr>remote_log := remote_log s @ [(SelectOne uid, r)]\<rparr>
      in if r = Throws then (Rejected, s1)
         else if r = Returns \<and> rows_of (generations s) uid \<noteq> [] then (Resolved, s1)
         else (Resolved, migrate_items e uid (take 20 (history_of s)) s1))"
  using assms
  by (auto simp: migrateLocalHistoryToCloud_def history_of_def Let_def remote_def
      split: option.splits outcome.splits)

lemma migrate_effect:
  assumes "currentUser s = Some uid" and "supabaseClient s" and "history_of s \<noteq> []"
  shows "localStorage (snd (migrateLocalHistoryToCloud e s)) = localStorage s"
    and "net e (length (remote_log s)) = Throws \<or>
         net e (length (remote_log s)) = Returns \<and> rows_of (generations s) uid \<noteq> [] \<Longrightarrow>
         generations (snd (migrateLocalHistoryToCloud e s)) = generations s \<and>
         insert_calls (snd (migrateLocalHistoryToCloud e s)) = insert_calls s"
    and "\<not> (net e (length (remote_log s)) = Throws \<or>
         net e (length (remote_log s)) = Returns \<and> rows_of (generations s) uid \<noteq> []) \<Longrightarrow>
         generations (snd (migrateLocalHistoryToCloud e s)) =
           generations s @ map (migration_row uid)
             (accepted e (Suc (length (remote_log s))) (take 20 (history_of s))) \<and>
         insert_calls (snd (migrateLocalHistoryToCloud e s)) =
           insert_calls s + length (take 20 (history_of s))"
proof -
  have i: "insert_calls (s\<lparr>remote_log := remote_log s @ [(SelectOne uid, r)]\<rparr>) = insert_calls s"
    for r
    by (simp add: insert_calls_def)
  note c = migrate_checked [OF assms, of e]
  show "localStorage (snd (migrateLocalHistoryToCloud e s)) = localStorage s"
    by (simp add: c Let_def migrate_items_effect)
  show "generations (snd (migrateLocalHistoryToCloud e s)) = generations s \<and>
      insert_calls (snd (migrateLocalHistoryToCloud e s)) = insert_calls s"
    if "net e (length (remote_log s)) = Throws \<or>
      net e (length (remote_log s)) = Returns \<and> rows_of (generations s) uid \<noteq> []"
    using that by (auto simp: c Let_def i)
  show "generations (snd (migrateLocalHistoryToCloud e s)) =
        generations s @ map (migration_row uid)
          (accepted e (Suc (length (remote_log s))) (take 20 (history_of s))) \<and>
      insert_calls (snd (migrateLocalHistoryToCloud e s)) =
        insert_calls s + length (take 20 (history_of s))"
    if "\<not> (net e (length (remote_log s)) = Throws \<or>
      net e (length (remote_log s)) = Returns \<and> rows_of (generations s) uid \<noteq> [])"
    using that by (auto simp: c Let_def migrate_items_effect i)
qed

text \<open>
  C4. \<open>migrateLocalHistoryToCloud\<close> never writes local storage. The rows it adds to the
  remote table are the rows of a subsequence of the first 20 entries of the local
  history, in the order of that history, and it issues at most 20 inserts. When the
  query for an existing row returns and the user has a row, it issues no insert and adds
  no row. When every call returns and the user has no row, it adds the rows of the first
  20 entries, all of them and in order.
\<close>

theorem migration_copies_recent_entries:
  "localStorage (snd (migrateLocalHistoryToCloud e s)) = localStorage s \<and>
   insert_calls (snd (migrateLocalHistoryToCloud e s)) \<le> insert_calls s + 20 \<and>
   (\<exists>ys. subseq ys (take 20 (history_of s)) \<and> length ys \<le> 20 \<and>
      (\<forall>uid. currentUser s = Some uid \<longrightarrow>
         generations (snd (migrateLocalHistoryToCloud e s)) =
           generations s @ map (migration_row uid) ys) \<and>
      (currentUser s = None \<longrightarrow>
         generations (snd (migrateLocalHistoryToCloud e s)) = generations s)) \<and>
   (\<forall>uid. currentUser s = Some uid \<and> net e (length (remote_log s)) = Returns \<and>
          rows_of (generations s) uid \<noteq> [] \<longrightarrow>
      generations (snd (migrateLocalHistoryToCloud e s)) = generations s \<and>
      insert_calls (snd (migrateLocalHistoryToCloud e s)) = insert_calls s) \<and>
   (\<forall>uid. currentUser s = Some uid \<and> supabaseClient s \<and> reliable e \<and>
          rows_of (generations s) uid = [] \<longrightarrow>
      generations (snd (migrateLocalHistoryToCloud e s)) =
        generations s @ map (migration_row uid) (take 20 (history_of s)))"
proof (cases "currentUser s = None \<or> \<not> supabaseClient s \<or> history_of s = []")
  case True
  have "subseq [] (take 20 (history_of s))"
    by simp
  with True show ?thesis
    by (auto simp: migrate_idle [OF True] intro!: exI [of _ "[]"])
next
  case False
  then obtain uid where u: "currentUser s = Some uid" and cl: "supabaseClient s"
    and h: "history_of s \<noteq> []"
    by auto
  note m = migrate_effect [OF u cl h, of e]
  let ?skip = "net e (length (remote_log s)) = Throws \<or>
      net e (length (remote_log s)) = Returns \<and> rows_of (generations s) uid \<noteq> []"
  show ?thesis
  proof (cases ?skip)
    case True
    note k = m(2) [OF True]
    have "subseq [] (take 20 (history_of s))"
      by simp
    moreover have "reliable e \<Longrightarrow> rows_of (generations s) uid = [] \<Longrightarrow> False"
      using True by (auto simp: reliable_def)
    ultimately show ?thesis
      using m(1) k u by (auto intro!: exI [of _ "[]"])
  next
    case False
    note k = m(3) [OF False]
    let ?ys = "accepted e (Suc (length (remote_log s))) (take 20 (history_of s))"
    have sub: "subseq ?ys (take 20 (history_of s))"
      by (rule accepted_subseq)
    then have "length ?ys \<le> length (take 20 (history_of s))"
      by (rule list_emb_length)
    then have len: "length ?ys \<le> 20"
      by simp
    have rel: "reliable e \<Longrightarrow> ?ys = take 20 (history_of s)"
      by (rule accepted_reliable)
    have ex: "\<exists>ys. subseq ys (take 20 (history_of s)) \<and> length ys \<le> 20 \<and>
        generations (snd (migrateLocalHistoryToCloud e s)) =
          generations s @ map (migration_row uid) ys"
      using sub len k by blast
    show ?thesis
      using m(1) k u False ex rel by auto
  qed
qed


theorem migration_copies_recent_entries_witness:
  "currentUser long_history = Some ''u1'' \<and> supabaseClient long_history \<and> reliable online \<and>
   rows_of (generations long_history) ''u1'' = [] \<and>
   generations (snd (migrateLocalHistoryToCloud online long_history)) =
     replicate 20 (migration_row ''u1'' one_entry) \<and>
   localStorage (snd (migrateLocalHistoryToCloud online long_history)) =
     localStorage long_history \<and>
   currentUser returning_user = Some ''u1'' \<and>
   net online (length (remote_log returning_user)) = Returns \<and>
   rows_of (generations returning_user) ''u1'' \<noteq> [] \<and>
   generations (snd (migrateLocalHistoryToCloud online returning_user)) =
     generations returning_user \<and>
   insert_calls (snd (migrateLocalHistoryToCloud online returning_user)) =
     insert_calls returning_user \<and>
   currentUser fresh_state = None \<and>
   generations (snd (migrateLocalHistoryToCloud online fresh_state)) = generations fresh_state"
proof -
  have a: "currentUser long_history = Some ''u1''" "supabaseClient long_history"
    "rows_of (generations long_history) ''u1'' = []" "generations long_history = []"
    "history_of long_history = replicate 25 one_entry"
    by (simp_all add: long_history_def signed_in_def fresh_state_def rows_of_def history_of_def
        getUsageData_def)
  have r: "reliable online"
    by (simp add: reliable_def online_def)
  have b: "currentUser returning_user = Some ''u1''"
    "net online (length (remote_log returning_user)) = Returns"
    "rows_of (generations returning_user) ''u1'' \<noteq> []"
    by (simp_all add: returning_user_def signed_in_def fresh_state_def rows_of_def online_def
        migration_row_def)
  have c: "currentUser fresh_state = None"
    by (simp add: fresh_state_def)
  have t: "take 20 (replicate 25 one_entry) = replicate 20 one_entry"
    by simp
  note w1 = migration_copies_recent_entries [of online long_history]
  note w2 = migration_copies_recent_entries [of online returning_user]
  note w3 = migration_copies_recent_entries [of online fresh_state]
  from w1 a r have g1: "generations (snd (migrateLocalHistoryToCloud online long_history)) =
      generations long_history @
        map (migration_row ''u1'') (take 20 (history_of long_history))"
    by blast
  have g1': "generations (snd (migrateLocalHistoryToCloud online long_history)) =
      replicate 20 (migration_row ''u1'' one_entry)"
    unfolding g1 a t by simp
  from w1 have l1: "localStorage (snd (migrateLocalHistoryToCloud online long_history)) =
      localStorage long_history"
    by blast
  from w2 b have g2: "generations (snd (migrateLocalHistoryToCloud online returning_user)) =
      generations returning_user \<and>
    insert_calls (snd (migrateLocalHistoryToCloud online returning_user)) =
      insert_calls returning_user"
    by blast
  from w3 c have g3: "generations (snd (migrateLocalHistoryToCloud online fresh_state)) =
      generations fresh_state"
    by blast
  from a(1,2,3) r g1' l1 b g2 c g3 show ?thesis
    by blast
qed

theorem failed_check_counterexample:
  "currentUser returning_user = Some ''u1'' \<and>
   rows_of (generations returning_user) ''u1'' = [migration_row ''u1'' one_entry] \<and>
   insert_calls returning_user = 0 \<and>
   insert_calls (snd (migrateLocalHistoryToCloud select_fails returning_user)) = 1 \<and>
   generations (snd (migrateLocalHistoryToCloud select_fails returning_user)) =
     [migration_row ''u1'' one_entry, migration_row ''u1'' one_entry]"
proof -
  have b: "currentUser returning_user = Some ''u1''" "supabaseClient returning_user"
    "history_of returning_user = [one_entry]" "remote_log returning_user = []"
    "generations returning_user = [migration_row ''u1'' one_entry]"
    "rows_of (generations returning_user) ''u1'' = [migration_row ''u1'' one_entry]"
    "insert_calls returning_user = 0"
    by (simp_all add: returning_user_def signed_in_def fresh_state_def rows_of_def history_of_def
        getUsageData_def migration_row_def empty_usage_def insert_calls_def)
  have n: "net select_fails 0 = ReturnsError" "net select_fails (Suc 0) = Returns"
    by (simp_all add: select_fails_def)
  have h: "history_of returning_user \<noteq> []"
    by (simp add: b)
  have k: "\<not> (net select_fails (length (remote_log returning_user)) = Throws \<or>
      net select_fails (length (remote_log returning_user)) = Returns \<and>
      rows_of (generations returning_user) ''u1'' \<noteq> [])"
    by (simp add: b n)
  from migrate_effect(3) [OF b(1) b(2) h k] b show ?thesis
    by (simp add: n)
qed

end
